theory Spec2Isabelle
  imports Main
begin

section \<open>The header \<open>src/include/minijinja_extension.hpp\<close>\<close>

text \<open>
  The repository's source is one header. It has no function body: it defines one
  preprocessor macro and declares one class with three member functions. The
  development therefore has three layers:
  \<^item> the text of the header, line by line;
  \<^item> the declarations of the header as data (what is declared, with which
    specifiers), since most statements about this file are statements about what it
    declares;
  \<^item> the meaning of what it declares, as far as the header fixes it: the macro as a
    constant, and the value \<open>Version\<close> returns. No body of a member function is in
    the header, so what a call does to the object it runs on is not modelled.
\<close>

subsection \<open>The text\<close>

text \<open>
  The lines of the header, in order, without their line ends. Lines 12 to 14 start
  with a tab (character 9). The last line is not followed by a line end.
\<close>

definition minijinja_extension_hpp :: "string list" where
  \<open>minijinja_extension_hpp =
    [ ''#pragma once'',
      '''',
      ''#include "duckdb.hpp"'',
      '''',
      ''namespace duckdb {'',
      '''',
      ''// Extension version - update this single location when releasing new versions'',
      ''#define MINIJINJA_EXTENSION_VERSION "2025101901"'',
      '''',
      ''class MinijinjaExtension : public Extension {'',
      ''public:'',
      CHR 0x09 # ''void Load(ExtensionLoader &db) override;'',
      CHR 0x09 # ''std::string Name() override;'',
      CHR 0x09 # ''std::string Version() const override;'',
      ''};'',
      '''',
      ''} // namespace duckdb'' ]\<close>

subsection \<open>The macro\<close>

text \<open>
  Line 8, \<^verbatim>\<open>#define MINIJINJA_EXTENSION_VERSION "2025101901"\<close>: wherever the name is
  used it stands for this string literal, whose value is the ten characters between
  the quotes. The comment on line 7 calls it the single location of the extension's
  version.
\<close>

definition MINIJINJA_EXTENSION_VERSION :: string where
  "MINIJINJA_EXTENSION_VERSION = ''2025101901''"

subsection \<open>Declarations as data\<close>

text \<open>The types the header mentions: \<open>void\<close>, \<open>std::string\<close>, and classes by name.\<close>

datatype cpp_type = Void | Std_string | Class_type string

text \<open>How a parameter is passed: by value, or by (non-const lvalue) reference \<open>&\<close>.\<close>

datatype passing = By_value | By_reference

record param_decl =
  param_type :: cpp_type
  param_passing :: passing
  param_name :: string

text \<open>
  A member function declaration: return type, name, parameters, whether \<open>const\<close>
  follows the parameter list, and whether \<open>override\<close> does.
\<close>

record method_decl =
  return_type :: cpp_type
  method_name :: string
  parameters :: "param_decl list"
  is_const :: bool
  is_override :: bool

datatype access = Public | Protected | Private

text \<open>
  A class (or struct) declaration: its name, its base classes, its data members
  and its member functions, each with its access.
\<close>

record class_decl =
  class_name :: string
  bases :: "(access \<times> string) list"
  data_members :: "(access \<times> cpp_type \<times> string) list"
  methods :: "(access \<times> method_decl) list"

text \<open>
  What a header can hold at file or namespace level, as far as this development
  distinguishes it: the two preprocessor directives of the file, a macro definition
  (name and the value of its string literal), a class, a struct, an enum (name and
  enumerators), a type alias (\<open>using\<close> or \<open>typedef\<close>), a free function, and a
  namespace with the declarations inside it.
\<close>

datatype decl =
    Pragma_once
  | Include string
  | Define string string
  | Class class_decl
  | Struct class_decl
  | Enum string "string list"
  | Alias string cpp_type
  | Function method_decl
  | Namespace string "decl list"

text \<open>Line 12: \<^verbatim>\<open>void Load(ExtensionLoader &db) override;\<close>\<close>

definition Load_decl :: method_decl where
  "Load_decl =
    \<lparr> return_type = Void,
      method_name = ''Load'',
      parameters =
        [\<lparr> param_type = Class_type ''ExtensionLoader'',
           param_passing = By_reference,
           param_name = ''db'' \<rparr>],
      is_const = False,
      is_override = True \<rparr>"

text \<open>Line 13: \<^verbatim>\<open>std::string Name() override;\<close>\<close>

definition Name_decl :: method_decl where
  "Name_decl =
    \<lparr> return_type = Std_string,
      method_name = ''Name'',
      parameters = [],
      is_const = False,
      is_override = True \<rparr>"

text \<open>Line 14: \<^verbatim>\<open>std::string Version() const override;\<close>\<close>

definition Version_decl :: method_decl where
  "Version_decl =
    \<lparr> return_type = Std_string,
      method_name = ''Version'',
      parameters = [],
      is_const = True,
      is_override = True \<rparr>"

text \<open>
  Lines 10 to 15: \<^verbatim>\<open>class MinijinjaExtension : public Extension { public: ... };\<close>
  with the three member functions after \<open>public:\<close> and no data member.
\<close>

definition MinijinjaExtension :: class_decl where
  "MinijinjaExtension =
    \<lparr> class_name = ''MinijinjaExtension'',
      bases = [(Public, ''Extension'')],
      data_members = [],
      methods = [(Public, Load_decl), (Public, Name_decl), (Public, Version_decl)] \<rparr>"

text \<open>
  The whole header, in source order. The macro definition stands between the braces
  of the namespace in the text, and is listed there.
\<close>

definition minijinja_extension_header :: "decl list" where
  "minijinja_extension_header =
    [ Pragma_once,
      Include ''duckdb.hpp'',
      Namespace ''duckdb''
        [ Define ''MINIJINJA_EXTENSION_VERSION'' MINIJINJA_EXTENSION_VERSION,
          Class MinijinjaExtension ] ]"

text \<open>The declarations of a header with every namespace opened, in source order.\<close>

primrec open_namespaces :: "decl \<Rightarrow> decl list" where
  "open_namespaces Pragma_once = [Pragma_once]"
| "open_namespaces (Include f) = [Include f]"
| "open_namespaces (Define n v) = [Define n v]"
| "open_namespaces (Class c) = [Class c]"
| "open_namespaces (Struct c) = [Struct c]"
| "open_namespaces (Enum n es) = [Enum n es]"
| "open_namespaces (Alias n t) = [Alias n t]"
| "open_namespaces (Function f) = [Function f]"
| "open_namespaces (Namespace n ds) = concat (map open_namespaces ds)"

definition all_decls :: "decl list \<Rightarrow> decl list" where
  "all_decls ds = concat (map open_namespaces ds)"

text \<open>The declarations of each kind.\<close>

fun macro_of :: "decl \<Rightarrow> (string \<times> string) list" where
  "macro_of (Define n v) = [(n, v)]"
| "macro_of _ = []"

fun class_of :: "decl \<Rightarrow> class_decl list" where
  "class_of (Class c) = [c]"
| "class_of _ = []"

fun struct_of :: "decl \<Rightarrow> class_decl list" where
  "struct_of (Struct c) = [c]"
| "struct_of _ = []"

fun enum_of :: "decl \<Rightarrow> string list" where
  "enum_of (Enum n es) = [n]"
| "enum_of _ = []"

fun alias_of :: "decl \<Rightarrow> string list" where
  "alias_of (Alias n t) = [n]"
| "alias_of _ = []"

fun function_of :: "decl \<Rightarrow> method_decl list" where
  "function_of (Function f) = [f]"
| "function_of _ = []"

definition macro_defs :: "decl list \<Rightarrow> (string \<times> string) list" where
  "macro_defs ds = concat (map macro_of (all_decls ds))"

definition class_decls :: "decl list \<Rightarrow> class_decl list" where
  "class_decls ds = concat (map class_of (all_decls ds))"

definition struct_decls :: "decl list \<Rightarrow> class_decl list" where
  "struct_decls ds = concat (map struct_of (all_decls ds))"

definition enum_decls :: "decl list \<Rightarrow> string list" where
  "enum_decls ds = concat (map enum_of (all_decls ds))"

definition alias_decls :: "decl list \<Rightarrow> string list" where
  "alias_decls ds = concat (map alias_of (all_decls ds))"

definition function_decls :: "decl list \<Rightarrow> method_decl list" where
  "function_decls ds = concat (map function_of (all_decls ds))"

subsection \<open>The version a call of \<open>Version\<close> returns\<close>

text \<open>
  Modelled from the spec: the body of \<open>MinijinjaExtension::Version\<close>, which the header
  only declares (line 14); the source file that defines it is not among the sources.
  The spec says that \<open>Version()\<close> returns the string defined by the version macro,
  sourced from a compile-time constant. The function takes the object it is called
  on (its state is that of the host's base \<open>Extension\<close>, a type variable here) and
  gives the returned string.
\<close>

definition Version :: "'obj \<Rightarrow> string" where
  "Version self = MINIJINJA_EXTENSION_VERSION"

subsection \<open>The types a class is built from, and the types its signatures mention\<close>





section \<open>What the header declares\<close>

lemma all_decls_header:
  "all_decls minijinja_extension_header =
    [ Pragma_once,
      Include ''duckdb.hpp'',
      Define ''MINIJINJA_EXTENSION_VERSION'' MINIJINJA_EXTENSION_VERSION,
      Class MinijinjaExtension ]"
  by (simp add: all_decls_def minijinja_extension_header_def)

lemma class_decls_header: "class_decls minijinja_extension_header = [MinijinjaExtension]"
  by (simp add: class_decls_def all_decls_header)

lemma macro_defs_header:
  "macro_defs minijinja_extension_header =
    [(''MINIJINJA_EXTENSION_VERSION'', MINIJINJA_EXTENSION_VERSION)]"
  by (simp add: macro_defs_def all_decls_header)

lemma struct_decls_header: "struct_decls minijinja_extension_header = []"
  by (simp add: struct_decls_def all_decls_header)

lemma enum_decls_header: "enum_decls minijinja_extension_header = []"
  by (simp add: enum_decls_def all_decls_header)

lemma alias_decls_header: "alias_decls minijinja_extension_header = []"
  by (simp add: alias_decls_def all_decls_header)

lemma function_decls_header: "function_decls minijinja_extension_header = []"
  by (simp add: function_decls_def all_decls_header)

lemma methods_MinijinjaExtension:
  "map snd (methods MinijinjaExtension) = [Load_decl, Name_decl, Version_decl]"
  by (simp add: MinijinjaExtension_def)

lemma method_names:
  "method_name Load_decl = ''Load''"
  "method_name Name_decl = ''Name''"
  "method_name Version_decl = ''Version''"
  by (simp_all add: Load_decl_def Name_decl_def Version_decl_def)

lemma method_overrides:
  "is_override Load_decl" "is_override Name_decl" "is_override Version_decl"
  by (simp_all add: Load_decl_def Name_decl_def Version_decl_def)

lemma method_consts:
  "\<not> is_const Load_decl" "\<not> is_const Name_decl" "is_const Version_decl"
  by (simp_all add: Load_decl_def Name_decl_def Version_decl_def)




section \<open>The claims\<close>

text \<open>
  C1. For every \<open>MinijinjaExtension\<close> object, \<open>Version()\<close> returns exactly the string
  that the macro \<open>MINIJINJA_EXTENSION_VERSION\<close> defines, and nothing else decides the
  value: the result is the macro's string for every object, whatever its state. (The
  body of \<open>Version\<close> is the one modelled from the spec.)
\<close>

theorem Version_returns_macro:
  "Version self = MINIJINJA_EXTENSION_VERSION"
  by (simp add: Version_def)

text \<open>
  C5. The class \<open>MinijinjaExtension\<close> declares exactly three member functions, \<open>Load\<close>,
  \<open>Name\<close> and \<open>Version\<close>, each with the \<open>override\<close> specifier (which a compiler accepts
  only on a function that overrides a virtual member function of a base class), and
  its only base class is \<open>Extension\<close>; it declares no data member. Beside the class the
  header defines exactly one macro, the version string, and declares nothing else:
  no other class, no struct, enum, alias or free function.
\<close>

theorem MinijinjaExtension_surface:
  "map (\<lambda>m. method_name (snd m)) (methods MinijinjaExtension) = [''Load'', ''Name'', ''Version'']
   \<and> map (\<lambda>m. is_override (snd m)) (methods MinijinjaExtension) = [True, True, True]
   \<and> map snd (bases MinijinjaExtension) = [''Extension'']
   \<and> data_members MinijinjaExtension = []
   \<and> macro_defs minijinja_extension_header =
        [(''MINIJINJA_EXTENSION_VERSION'', MINIJINJA_EXTENSION_VERSION)]
   \<and> class_decls minijinja_extension_header = [MinijinjaExtension]
   \<and> struct_decls minijinja_extension_header = []
   \<and> enum_decls minijinja_extension_header = []
   \<and> alias_decls minijinja_extension_header = []
   \<and> function_decls minijinja_extension_header = []"
proof -
  have "map (\<lambda>m. method_name (snd m)) (methods MinijinjaExtension) = [''Load'', ''Name'', ''Version'']"
    by (simp add: MinijinjaExtension_def method_names)
  moreover have "map (\<lambda>m. is_override (snd m)) (methods MinijinjaExtension) = [True, True, True]"
    by (simp add: MinijinjaExtension_def method_overrides)
  moreover have "map snd (bases MinijinjaExtension) = [''Extension'']"
    by (simp add: MinijinjaExtension_def)
  moreover have "data_members MinijinjaExtension = []"
    by (simp add: MinijinjaExtension_def)
  ultimately show ?thesis
    by (simp only: macro_defs_header class_decls_header struct_decls_header
        enum_decls_header alias_decls_header function_decls_header simp_thms)
qed

text \<open>
  C6. The source is one header of exactly 17 lines, and the only interface it declares
  is the class \<open>MinijinjaExtension\<close>: it declares that one class, and no struct and no
  free function.
\<close>

theorem header_17_lines:
  "length minijinja_extension_hpp = 17
   \<and> class_decls minijinja_extension_header = [MinijinjaExtension]
   \<and> struct_decls minijinja_extension_header = []
   \<and> function_decls minijinja_extension_header = []"
proof -
  have "length minijinja_extension_hpp = 17"
    by (simp add: minijinja_extension_hpp_def)
  then show ?thesis
    by (simp only: class_decls_header struct_decls_header function_decls_header simp_thms)
qed



text \<open>
  C9. The macro \<open>MINIJINJA_EXTENSION_VERSION\<close> is defined as the string literal
  \<open>"2025101901"\<close>, so \<open>Version()\<close> returns exactly that string. (The body of \<open>Version\<close>
  is the one modelled from the spec.)
\<close>

theorem Version_is_2025101901:
  "map_of (macro_defs minijinja_extension_header) ''MINIJINJA_EXTENSION_VERSION''
      = Some ''2025101901''
   \<and> MINIJINJA_EXTENSION_VERSION = ''2025101901''
   \<and> Version self = ''2025101901''"
  by (simp add: macro_defs_header MINIJINJA_EXTENSION_VERSION_def Version_def)

end
